theory Spec2Isabelle
  imports Complex_Main "HOL-Library.Word"
begin

section \<open>Values and library interfaces used by \<^verbatim>\<open>oauth_middleware.go\<close>\<close>

text \<open>
  A decoded claim value. \<^verbatim>\<open>jwt.MapClaims\<close> is \<^verbatim>\<open>map[string]interface{}\<close> filled by
  \<^verbatim>\<open>encoding/json\<close>, so a value is one of: nil, bool, float64, string,
  \<^verbatim>\<open>[]interface{}\<close>, \<^verbatim>\<open>map[string]interface{}\<close>. A float64 read from JSON is finite;
  it is represented by its exact rational value.
\<close>

datatype iface =
    AnyNil
  | AnyBool bool
  | AnyFloat64 rat
  | AnyString string
  | AnySlice "iface list"
  | AnyMap "(string \<times> iface) list"

type_synonym MapClaims = "string \<rightharpoonup> iface"

text \<open>
  The \<^verbatim>\<open>jwt.Claims\<close> interface value held by a token: either a \<^verbatim>\<open>jwt.MapClaims\<close> or
  some other implementation (the type assertion of line 69 distinguishes the two).
\<close>

datatype jwt_Claims = IsMapClaims MapClaims | OtherClaims

record Token =
  Valid :: bool
  Claims :: jwt_Claims

text \<open>
  What the program takes from outside its own source, as parameters:
  \<^item> \<open>Now_Unix\<close>: the value of \<^verbatim>\<open>time.Now().Unix()\<close>, an int64;
  \<^item> \<open>int64_out_of_range\<close>: the result of the conversion \<^verbatim>\<open>int64(f)\<close> for a float64
    whose truncation does not fit into an int64 (the language leaves that value to the
    implementation);
  \<^item> \<open>jwt_alg\<close>: the signing algorithm a raw token declares in its header, if it has one;
  \<^item> \<open>jwt_payload\<close>: the claims a raw token carries in its payload, if it decodes;
  \<^item> \<open>jwt_Parse\<close>: the call \<^verbatim>\<open>jwt.Parse(tokenString, keyfunc, jwt.WithValidMethods(methods))\<close>
    of the library golang-jwt, with the state of the key set and of the clock at the
    moment of the call; \<open>Inl\<close> is a non-nil error (its message).
\<close>

record 'k world =
  Now_Unix :: "64 word"
  int64_out_of_range :: "rat \<Rightarrow> 64 word"
  jwt_alg :: "string \<Rightarrow> string option"
  jwt_payload :: "string \<Rightarrow> MapClaims option"
  jwt_Parse :: "string \<Rightarrow> 'k \<Rightarrow> string list \<Rightarrow> string + Token"

text \<open>The struct \<^verbatim>\<open>OAuthConfig\<close>; \<open>'k\<close> is the type of the key function.\<close>

record 'k OAuthConfig =
  AuthzServerURL :: string
  JwksURL :: string
  ResourceURL :: string
  jwks :: 'k

subsection \<open>\<^verbatim>\<open>net/http\<close>: requests and response writers\<close>

text \<open>
  Header maps are keyed by field name. Field names are case-insensitive in HTTP and Go
  stores them under a canonical spelling; every name in the source is a literal, and
  the model keys the maps by the name as the source writes it.
\<close>

type_synonym Header = "string \<rightharpoonup> string list"

record Request =
  Method :: string
  URL_Path :: string
  Header :: Header
  Body :: string

text \<open>
  What a handler writes to the body: a line of text (\<^verbatim>\<open>fmt.Fprintln\<close>), or the JSON
  encoding of a metadata value followed by a newline (\<^verbatim>\<open>json.Encoder.Encode\<close>).
\<close>

record ProtectedResourceMetadata =
  Resource :: string
  ScopesSupported :: "string list"
  AuthorizationServers :: "string list"

datatype body_write = Fprintln string | Encode ProtectedResourceMetadata

text \<open>
  An \<^verbatim>\<open>http.ResponseWriter\<close>: the header map, the status code once the header has been
  written, and the writes to the body, in order.
\<close>

record ResponseWriter =
  hdr :: Header
  status :: "nat option"
  body :: "body_write list"

definition fresh_writer :: ResponseWriter where
  "fresh_writer = \<lparr>hdr = Map.empty, status = None, body = []\<rparr>"

type_synonym Handler = "ResponseWriter \<Rightarrow> Request \<Rightarrow> ResponseWriter"

definition StatusOK :: nat where
  "StatusOK = 200"

definition StatusUnauthorized :: nat where
  "StatusUnauthorized = 401"

text \<open>\<^verbatim>\<open>Header.Get\<close>: the first value of the field, or the empty string.\<close>

definition Header_Get :: "Header \<Rightarrow> string \<Rightarrow> string" where
  "Header_Get h key = (case h key of None \<Rightarrow> [] | Some [] \<Rightarrow> [] | Some (v # _) \<Rightarrow> v)"

text \<open>\<^verbatim>\<open>w.Header().Set(key, value)\<close> and \<^verbatim>\<open>w.Header().Del(key)\<close>.\<close>

definition Header_Set :: "ResponseWriter \<Rightarrow> string \<Rightarrow> string \<Rightarrow> ResponseWriter" where
  "Header_Set w key v = w\<lparr>hdr := (hdr w)(key \<mapsto> [v])\<rparr>"

definition Header_Del :: "ResponseWriter \<Rightarrow> string \<Rightarrow> ResponseWriter" where
  "Header_Del w key = w\<lparr>hdr := (hdr w)(key := None)\<rparr>"

text \<open>\<^verbatim>\<open>w.WriteHeader(code)\<close>: only the first call sets the status.\<close>

definition WriteHeader :: "ResponseWriter \<Rightarrow> nat \<Rightarrow> ResponseWriter" where
  "WriteHeader w code = (case status w of None \<Rightarrow> w\<lparr>status := Some code\<rparr> | Some _ \<Rightarrow> w)"

text \<open>A write to the body; it sends the header with status 200 when none was sent.\<close>

definition Write :: "ResponseWriter \<Rightarrow> body_write \<Rightarrow> ResponseWriter" where
  "Write w b = (let w' = WriteHeader w StatusOK in w'\<lparr>body := body w' @ [b]\<rparr>)"

text \<open>
  \<^verbatim>\<open>http.Error(w, error, code)\<close>: drops Content-Length, sets the content type to plain
  text and X-Content-Type-Options, writes the header with \<open>code\<close> and prints the message.
\<close>

definition http_Error :: "ResponseWriter \<Rightarrow> string \<Rightarrow> nat \<Rightarrow> ResponseWriter" where
  "http_Error w msg code =
     (let w1 = Header_Del w ''Content-Length'';
          w2 = Header_Set w1 ''Content-Type'' ''text/plain; charset=utf-8'';
          w3 = Header_Set w2 ''X-Content-Type-Options'' ''nosniff'';
          w4 = WriteHeader w3 code
      in Write w4 (Fprintln msg))"

subsection \<open>\<^verbatim>\<open>strings\<close>\<close>

definition HasPrefix :: "string \<Rightarrow> string \<Rightarrow> bool" where
  "HasPrefix s p = (length p \<le> length s \<and> take (length p) s = p)"

definition TrimPrefix :: "string \<Rightarrow> string \<Rightarrow> string" where
  "TrimPrefix s p = (if HasPrefix s p then drop (length p) s else s)"

text \<open>
  \<^verbatim>\<open>strings.Split(s, sep)\<close> for a separator of one byte, the only use in the source
  (\<^verbatim>\<open>strings.Split(scope, " ")\<close>): the pieces between the separators, empty ones included.
\<close>

fun strings_Split :: "string \<Rightarrow> char \<Rightarrow> string list" where
  "strings_Split [] sep = [[]]"
| "strings_Split (x # s) sep =
     (if x = sep then [] # strings_Split s sep
      else (case strings_Split s sep of t # ts \<Rightarrow> (x # t) # ts | [] \<Rightarrow> [[x]]))"

section \<open>The claim checks\<close>

text \<open>The loop of \<^verbatim>\<open>validateAudience\<close> over the elements of an \<^verbatim>\<open>aud\<close> array.\<close>

fun audience_range :: "string \<Rightarrow> iface list \<Rightarrow> bool" where
  "audience_range url [] = False"
| "audience_range url (a # v) =
     (if (case a of AnyString audStr \<Rightarrow> audStr = url | _ \<Rightarrow> False) then True
      else audience_range url v)"

definition validateAudience :: "'k OAuthConfig \<Rightarrow> MapClaims \<Rightarrow> bool" where
  "validateAudience c claims =
     (case claims ''aud'' of
        None \<Rightarrow> False
      | Some aud \<Rightarrow>
          (case aud of
             AnyString v \<Rightarrow> v = ResourceURL c
           | AnySlice v \<Rightarrow> audience_range (ResourceURL c) v
           | _ \<Rightarrow> False))"

definition validateIssuer :: "'k OAuthConfig \<Rightarrow> MapClaims \<Rightarrow> bool" where
  "validateIssuer c claims =
     (case claims ''iss'' of
        Some (AnyString iss) \<Rightarrow> iss = AuthzServerURL c
      | _ \<Rightarrow> False)"

text \<open>
  The conversion \<^verbatim>\<open>int64(exp)\<close> of a float64: the fraction is dropped (rounding
  towards zero); a value that does not fit is left to the implementation.
\<close>

definition trunc_float64 :: "rat \<Rightarrow> int" where
  "trunc_float64 f = (if 0 \<le> f then \<lfloor>f\<rfloor> else \<lceil>f\<rceil>)"

definition int64_of_float64 :: "'k world \<Rightarrow> rat \<Rightarrow> 64 word" where
  "int64_of_float64 wd f =
     (if - (2 ^ 63) \<le> trunc_float64 f \<and> trunc_float64 f < 2 ^ 63
      then word_of_int (trunc_float64 f)
      else int64_out_of_range wd f)"

text \<open>The comparison and the addition are those of int64: signed, wrapping.\<close>

definition validateExpiration :: "'k world \<Rightarrow> 'k OAuthConfig \<Rightarrow> MapClaims \<Rightarrow> bool" where
  "validateExpiration wd c claims =
     (case claims ''exp'' of
        Some (AnyFloat64 e) \<Rightarrow> sint (Now_Unix wd) < sint (int64_of_float64 wd e + 60)
      | _ \<Rightarrow> False)"

text \<open>The loop of \<^verbatim>\<open>validateScope\<close> over the pieces of the scope string.\<close>

fun scope_range :: "string list \<Rightarrow> bool" where
  "scope_range [] = False"
| "scope_range (s # ss) = (if s = ''mcp:tools'' then True else scope_range ss)"

definition validateScope :: "'k OAuthConfig \<Rightarrow> MapClaims \<Rightarrow> bool" where
  "validateScope c claims =
     (case claims ''scope'' of
        Some (AnyString scope) \<Rightarrow> scope_range (strings_Split scope CHR '' '')
      | _ \<Rightarrow> False)"

section \<open>The handlers\<close>

definition sendUnauthorized :: "'k OAuthConfig \<Rightarrow> ResponseWriter \<Rightarrow> Request \<Rightarrow> ResponseWriter" where
  "sendUnauthorized c w r =
     (let metadataURL = ResourceURL c @ ''/.well-known/oauth-protected-resource'';
          w1 = Header_Set w ''WWW-Authenticate''
                 (''Bearer resource_metadata='' @ [CHR 0x22] @ metadataURL @ [CHR 0x22])
      in http_Error w1 ''Unauthorized'' StatusUnauthorized)"

text \<open>
  The handler returned by \<^verbatim>\<open>OAuthMiddleware(next)\<close>. The calls of \<^verbatim>\<open>log.Printf\<close> (and the
  \<^verbatim>\<open>json.MarshalIndent\<close> that feeds one of them) write to the server's log only and are
  left out.
\<close>

definition OAuthMiddleware :: "'k world \<Rightarrow> 'k OAuthConfig \<Rightarrow> Handler \<Rightarrow> Handler" where
  "OAuthMiddleware wd c next w r =
     (let authHeader = Header_Get (Header r) ''Authorization'' in
      if authHeader = [] then sendUnauthorized c w r
      else
        let tokenString = TrimPrefix authHeader ''Bearer '' in
        if tokenString = authHeader then sendUnauthorized c w r
        else
          (case jwt_Parse wd tokenString (jwks c) [''RS256''] of
             Inl err \<Rightarrow> sendUnauthorized c w r
           | Inr token \<Rightarrow>
               if \<not> Valid token then sendUnauthorized c w r
               else
                 (case Claims token of
                    OtherClaims \<Rightarrow> sendUnauthorized c w r
                  | IsMapClaims claims \<Rightarrow>
                      if \<not> validateAudience c claims then sendUnauthorized c w r
                      else if \<not> validateIssuer c claims then sendUnauthorized c w r
                      else if \<not> validateExpiration wd c claims then sendUnauthorized c w r
                      else if \<not> validateScope c claims then sendUnauthorized c w r
                      else next w r)))"

definition HandleProtectedResourceMetadata ::
  "'k OAuthConfig \<Rightarrow> ResponseWriter \<Rightarrow> Request \<Rightarrow> ResponseWriter" where
  "HandleProtectedResourceMetadata c w r =
     (let w1 = Header_Set w ''Access-Control-Allow-Origin'' ''*'';
          w2 = Header_Set w1 ''Access-Control-Allow-Methods'' ''GET, OPTIONS'';
          w3 = Header_Set w2 ''Access-Control-Allow-Headers'' ''Content-Type''
      in if Method r = ''OPTIONS'' then WriteHeader w3 StatusOK
         else
           let metadata = \<lparr>Resource = ResourceURL c,
                            ScopesSupported = [''mcp:tools''],
                            AuthorizationServers = [AuthzServerURL c]\<rparr>;
               w4 = Header_Set w3 ''Content-Type'' ''application/json''
           in Write w4 (Encode metadata))"

section \<open>Notions of the specification\<close>

text \<open>
  A request passes the gate: it carries a bearer token that \<^verbatim>\<open>jwt.Parse\<close> accepts under
  the allow-list \<^verbatim>\<open>RS256\<close>, the token is valid, its claims are a \<^verbatim>\<open>jwt.MapClaims\<close>, and the
  four claim checks hold.
\<close>

definition admitted :: "'k world \<Rightarrow> 'k OAuthConfig \<Rightarrow> Request \<Rightarrow> bool" where
  "admitted wd c r =
     (let h = Header_Get (Header r) ''Authorization'' in
      HasPrefix h ''Bearer '' \<and>
      (case jwt_Parse wd (TrimPrefix h ''Bearer '') (jwks c) [''RS256''] of
         Inl err \<Rightarrow> False
       | Inr token \<Rightarrow>
           Valid token \<and>
           (case Claims token of
              OtherClaims \<Rightarrow> False
            | IsMapClaims claims \<Rightarrow>
                validateAudience c claims \<and> validateIssuer c claims \<and>
                validateExpiration wd c claims \<and> validateScope c claims)))"

text \<open>
  The step at which the gate gives up, in the order of the source; it is what the gate
  writes to the server's log before it answers (the first two steps log nothing).
\<close>

datatype failure =
    NoAuthorization
  | NoBearerPrefix
  | ParseFailed string
  | InvalidToken
  | InvalidClaimsType
  | InvalidAudience
  | InvalidIssuer
  | TokenExpired
  | InsufficientScope

definition failing_step :: "'k world \<Rightarrow> 'k OAuthConfig \<Rightarrow> Request \<Rightarrow> failure option" where
  "failing_step wd c r =
     (let authHeader = Header_Get (Header r) ''Authorization'' in
      if authHeader = [] then Some NoAuthorization
      else
        let tokenString = TrimPrefix authHeader ''Bearer '' in
        if tokenString = authHeader then Some NoBearerPrefix
        else
          (case jwt_Parse wd tokenString (jwks c) [''RS256''] of
             Inl err \<Rightarrow> Some (ParseFailed err)
           | Inr token \<Rightarrow>
               if \<not> Valid token then Some InvalidToken
               else
                 (case Claims token of
                    OtherClaims \<Rightarrow> Some InvalidClaimsType
                  | IsMapClaims claims \<Rightarrow>
                      if \<not> validateAudience c claims then Some InvalidAudience
                      else if \<not> validateIssuer c claims then Some InvalidIssuer
                      else if \<not> validateExpiration wd c claims then Some TokenExpired
                      else if \<not> validateScope c claims then Some InsufficientScope
                      else None)))"

text \<open>
  The contract of the option \<^verbatim>\<open>jwt.WithValidMethods\<close>: a token whose declared signing
  algorithm is not among the given methods is refused with an error.
\<close>

definition honours_valid_methods :: "'k world \<Rightarrow> bool" where
  "honours_valid_methods wd =
     (\<forall>tok k ms a. jwt_alg wd tok = Some a \<and> a \<notin> set ms \<longrightarrow> isl (jwt_Parse wd tok k ms))"

text \<open>
  The claim validation that \<^verbatim>\<open>jwt.Parse\<close> runs by default (the source says so at line 98:
  ``jwt.Parse already validates exp by default''), with no leeway, since the call at line 55
  passes no \<^verbatim>\<open>jwt.WithLeeway\<close>: a token whose numeric \<^verbatim>\<open>exp\<close> is not after the current
  time is refused with an error. The clock of a request is read once in the model.
\<close>

definition refuses_expired :: "'k world \<Rightarrow> bool" where
  "refuses_expired wd =
     (\<forall>tok k ms m e.
        jwt_payload wd tok = Some m \<and> m ''exp'' = Some (AnyFloat64 e) \<and>
        e \<le> of_int (sint (Now_Unix wd)) \<longrightarrow> isl (jwt_Parse wd tok k ms))"

text \<open>A space-delimited string and its tokens: the tokens hold no space and are joined
  by single spaces.\<close>

fun join_spaces :: "string list \<Rightarrow> string" where
  "join_spaces [] = []"
| "join_spaces [t] = t"
| "join_spaces (t # u # ts) = t @ CHR '' '' # join_spaces (u # ts)"

definition space_delimited :: "string list \<Rightarrow> string \<Rightarrow> bool" where
  "space_delimited ts s = (ts \<noteq> [] \<and> list_all (\<lambda>t. CHR '' '' \<notin> set t) ts \<and> s = join_spaces ts)"

text \<open>The value of the challenge header for a resource URL.\<close>

definition challenge :: "string \<Rightarrow> string" where
  "challenge url =
     ''Bearer resource_metadata='' @ [CHR 0x22] @ url @ ''/.well-known/oauth-protected-resource''
       @ [CHR 0x22]"

section \<open>A test fixture\<close>

text \<open>
  An in-memory stand-in for the library and the clock: the raw token \<open>''good''\<close> declares
  RS256 and verifies to the given claims, \<open>''hs''\<close> declares HS256, \<open>''none''\<close> declares
  no signature; nothing else parses.
\<close>

definition test_world :: "64 word \<Rightarrow> MapClaims \<Rightarrow> unit world" where
  "test_world now claims =
     \<lparr>Now_Unix = now,
      int64_out_of_range = (\<lambda>f. - (2 ^ 63)),
      jwt_alg = (\<lambda>tok. if tok = ''good'' then Some ''RS256''
                        else if tok = ''hs'' then Some ''HS256''
                        else if tok = ''none'' then Some ''none'' else None),
      jwt_payload = (\<lambda>tok. if tok = ''good'' then Some claims else None),
      jwt_Parse = (\<lambda>tok k ms.
                     if tok = ''good'' \<and> ''RS256'' \<in> set ms
                     then Inr \<lparr>Valid = True, Claims = IsMapClaims claims\<rparr>
                     else Inl ''token is unverifiable'')\<rparr>"

text \<open>
  The same stand-in with the library's expiry validation: the token \<open>''good''\<close> is
  accepted only while the clock is before its numeric \<^verbatim>\<open>exp\<close>.
\<close>

definition strict_world :: "64 word \<Rightarrow> MapClaims \<Rightarrow> unit world" where
  "strict_world now claims =
     (test_world now claims)
       \<lparr>jwt_Parse := (\<lambda>tok k ms.
                       if tok = ''good'' \<and> ''RS256'' \<in> set ms \<and>
                          (case claims ''exp'' of
                             Some (AnyFloat64 e) \<Rightarrow> of_int (sint now) < e
                           | _ \<Rightarrow> False)
                       then Inr \<lparr>Valid = True, Claims = IsMapClaims claims\<rparr>
                       else Inl ''token is expired'')\<rparr>"

definition test_config :: "unit OAuthConfig" where
  "test_config =
     \<lparr>AuthzServerURL = ''http://auth.example'',
      JwksURL = ''http://auth.example/certs'',
      ResourceURL = ''http://res.example'',
      jwks = ()\<rparr>"

definition test_claims :: "iface \<Rightarrow> rat \<Rightarrow> string \<Rightarrow> MapClaims" where
  "test_claims aud e scope =
     [''iss'' \<mapsto> AnyString ''http://auth.example'',
      ''aud'' \<mapsto> aud,
      ''exp'' \<mapsto> AnyFloat64 e,
      ''scope'' \<mapsto> AnyString scope]"

definition test_request :: "string \<Rightarrow> string list \<Rightarrow> Request" where
  "test_request m auth =
     \<lparr>Method = m, URL_Path = ''/'', Header = [''Authorization'' \<mapsto> auth], Body = []\<rparr>"

definition test_next :: Handler where
  "test_next w r = Write w (Fprintln (Body r))"

section \<open>Auxiliary facts\<close>

lemma audience_range_iff: "audience_range url v \<longleftrightarrow> AnyString url \<in> set v"
  by (induction v) (auto split: iface.splits)

lemma TrimPrefix_same: "p \<noteq> [] \<Longrightarrow> TrimPrefix h p = h \<longleftrightarrow> \<not> HasPrefix h p"
proof -
  assume p: "p \<noteq> []"
  have "length (drop (length p) h) < length h" if "length p \<le> length h"
    using that p by (cases p) simp_all
  then have "drop (length p) h \<noteq> h" if "length p \<le> length h"
    using that by fastforce
  then show ?thesis by (auto simp: TrimPrefix_def HasPrefix_def)
qed

lemma gate_eq:
  "OAuthMiddleware wd c next w r =
     (if admitted wd c r then next w r else sendUnauthorized c w r)"
proof -
  have t: "TrimPrefix h ''Bearer '' = h \<longleftrightarrow> \<not> HasPrefix h ''Bearer ''" for h
    by (rule TrimPrefix_same) simp
  have n: "\<not> HasPrefix [] ''Bearer ''" by (simp add: HasPrefix_def)
  show ?thesis
    unfolding OAuthMiddleware_def admitted_def Let_def
    using n by (auto simp: t split: sum.splits jwt_Claims.splits)
qed

lemma sendUnauthorized_status: "status w = None \<Longrightarrow> status (sendUnauthorized c w r) = Some 401"
  by (simp add: sendUnauthorized_def http_Error_def Write_def WriteHeader_def Header_Set_def
      Header_Del_def StatusUnauthorized_def StatusOK_def Let_def)

lemma sendUnauthorized_body:
  "status w = None \<Longrightarrow> body (sendUnauthorized c w r) = body w @ [Fprintln ''Unauthorized'']"
  by (simp add: sendUnauthorized_def http_Error_def Write_def WriteHeader_def Header_Set_def
      Header_Del_def StatusUnauthorized_def StatusOK_def Let_def)

lemma sendUnauthorized_challenge:
  "hdr (sendUnauthorized c w r) ''WWW-Authenticate'' = Some [challenge (ResourceURL c)]"
  by (simp add: sendUnauthorized_def http_Error_def Write_def WriteHeader_def Header_Set_def
      Header_Del_def challenge_def Let_def split: option.splits)

lemma Split_nonempty: "strings_Split s sep \<noteq> []"
  by (induction s) (auto split: list.splits)

lemma Split_no_sep: "t \<in> set (strings_Split s sep) \<Longrightarrow> sep \<notin> set t"
  by (induction s arbitrary: t) (auto split: list.splits if_splits)

lemma join_Split: "join_spaces (strings_Split s CHR '' '') = s"
proof (induction s)
  case Nil
  show ?case by simp
next
  case (Cons x s)
  obtain t ts where ts: "strings_Split s CHR '' '' = t # ts"
    using Split_nonempty [of s "CHR '' ''"] by (cases "strings_Split s CHR '' ''") auto
  show ?case
  proof (cases "x = CHR '' ''")
    case True
    with Cons ts show ?thesis by simp
  next
    case False
    with Cons ts show ?thesis by (cases ts) auto
  qed
qed

lemma Split_join:
  "ts \<noteq> [] \<Longrightarrow> list_all (\<lambda>t. CHR '' '' \<notin> set t) ts \<Longrightarrow>
   strings_Split (join_spaces ts) CHR '' '' = ts"
proof (induction ts rule: join_spaces.induct)
  case 1
  then show ?case by simp
next
  case (2 t)
  then show ?case by (induction t) auto
next
  case (3 t u ts)
  then have ih: "strings_Split (join_spaces (u # ts)) CHR '' '' = u # ts" by simp
  from 3 have "CHR '' '' \<notin> set t" by simp
  then show ?case using ih by (induction t) auto
qed

lemma scope_range_iff: "scope_range ss \<longleftrightarrow> ''mcp:tools'' \<in> set ss"
  by (induction ss) auto

lemma space_delimited_Split: "space_delimited ts s \<longleftrightarrow> ts = strings_Split s CHR '' ''"
proof
  assume "space_delimited ts s"
  then show "ts = strings_Split s CHR '' ''"
    by (simp add: space_delimited_def Split_join)
next
  assume "ts = strings_Split s CHR '' ''"
  then show "space_delimited ts s"
    using Split_no_sep [of _ s "CHR '' ''"]
    by (auto simp: space_delimited_def Split_nonempty join_Split list_all_iff)
qed

lemma gate_bearer:
  assumes "Header_Get (Header r) ''Authorization'' = ''Bearer '' @ tok"
    and "jwt_Parse wd tok (jwks c) [''RS256''] = Inr t"
    and "Valid t" and "Claims t = IsMapClaims m"
  shows "admitted wd c r \<longleftrightarrow>
           validateAudience c m \<and> validateIssuer c m \<and> validateExpiration wd c m \<and>
           validateScope c m"
  unfolding admitted_def assms(1) Let_def
  by (simp add: HasPrefix_def TrimPrefix_def assms)

lemma test_parse:
  "jwt_Parse (test_world now m) ''good'' (jwks test_config) [''RS256''] =
     Inr \<lparr>Valid = True, Claims = IsMapClaims m\<rparr>"
  by (simp add: test_world_def)

lemma test_header:
  "Header_Get (Header (test_request meth [''Bearer '' @ tok])) ''Authorization'' = ''Bearer '' @ tok"
  by (simp add: test_request_def Header_Get_def)

lemma test_claims_lookup:
  "test_claims aud e sc ''iss'' = Some (AnyString ''http://auth.example'')"
  "test_claims aud e sc ''aud'' = Some aud"
  "test_claims aud e sc ''exp'' = Some (AnyFloat64 e)"
  "test_claims aud e sc ''scope'' = Some (AnyString sc)"
  by (simp_all add: test_claims_def)

lemma test_issuer: "validateIssuer test_config (test_claims aud e sc)"
  by (simp add: validateIssuer_def test_claims_lookup test_config_def)

lemma test_scope: "validateScope test_config (test_claims aud e ''mcp:tools read'')"
  by (simp add: validateScope_def test_claims_lookup)

lemma test_audience:
  "validateAudience test_config
     (test_claims (AnySlice [AnyString ''http://other.example'', AnyString ''http://res.example'']) e sc)"
  by (simp add: validateAudience_def test_claims_lookup test_config_def)

lemma test_status: "status fresh_writer = None"
  by (simp add: fresh_writer_def)

lemma trunc_float64_range:
  assumes "- (2 ^ 63) \<le> e" and "e < 2 ^ 63 - 60"
  shows "- (2 ^ 63) \<le> trunc_float64 e \<and> trunc_float64 e + 60 < 2 ^ 63"
proof (cases "0 \<le> e")
  case True
  then have "0 \<le> \<lfloor>e\<rfloor>" by simp
  moreover have "\<lfloor>e\<rfloor> < 2 ^ 63 - 60"
    using assms(2) by (simp add: floor_less_iff)
  ultimately show ?thesis using True by (simp add: trunc_float64_def)
next
  case False
  then have "\<lceil>e\<rceil> \<le> 0" by (simp add: ceiling_le_iff)
  moreover have "- (2 ^ 63) \<le> \<lceil>e\<rceil>"
    using assms(1) by (simp add: le_ceiling_iff)
  ultimately show ?thesis using False by (simp add: trunc_float64_def)
qed

lemma int64_in_range:
  assumes "- (2 ^ 63) \<le> e" and "e < 2 ^ 63 - 60"
  shows "sint (int64_of_float64 wd e + 60) = trunc_float64 e + 60"
proof -
  from trunc_float64_range [OF assms]
  have lo: "- (2 ^ 63) \<le> trunc_float64 e" and hi: "trunc_float64 e + 60 < 2 ^ 63" by simp_all
  have "(word_of_int (trunc_float64 e) :: 64 word) + 60 = word_of_int (trunc_float64 e + 60)" by simp
  moreover have "sint (word_of_int (trunc_float64 e + 60) :: 64 word) = trunc_float64 e + 60"
    using lo hi by (simp only: sint_sbintrunc') (simp add: signed_take_bit_int_eq_self)
  ultimately show ?thesis using lo hi by (simp add: int64_of_float64_def)
qed

lemma validateExpiration_in_range:
  assumes "m ''exp'' = Some (AnyFloat64 e)" and "- (2 ^ 63) \<le> e" and "e < 2 ^ 63 - 60"
  shows "validateExpiration wd c m \<longleftrightarrow> sint (Now_Unix wd) < trunc_float64 e + 60"
  using assms(1) int64_in_range [OF assms(2,3), of wd] by (simp add: validateExpiration_def)

lemma trunc_float64_of_int: "trunc_float64 (of_int n) = n"
  by (simp add: trunc_float64_def)

lemma gate_failing_step:
  "OAuthMiddleware wd c next w r =
     (case failing_step wd c r of None \<Rightarrow> next w r | Some f \<Rightarrow> sendUnauthorized c w r)"
  unfolding OAuthMiddleware_def failing_step_def Let_def
  by (simp split: sum.splits jwt_Claims.splits)

lemma sendUnauthorized_any_request: "sendUnauthorized c w r = sendUnauthorized c w r'"
  by (simp add: sendUnauthorized_def)

section \<open>The expiry check\<close>

text \<open>
  C1. The claim: the gate's expiry decision follows the skew rule, passing while
  \<open>current_time < exp + 60\<close>. The check \<^verbatim>\<open>validateExpiration\<close> allows the 60 seconds (its
  comment: ``Allow 60 seconds of clock skew''), but the gate never reaches it for an
  expired token: \<^verbatim>\<open>jwt.Parse\<close> is called without a leeway and refuses the token first.
  With a parser that refuses expired tokens, a request whose token carries valid claims
  and an \<^verbatim>\<open>exp\<close> in whole seconds that lies up to 60 seconds in the past (30 seconds, say)
  passes \<^verbatim>\<open>validateExpiration\<close> and satisfies the skew rule, and is answered 401 all the
  same.
\<close>

theorem expired_within_skew_rejected:
  assumes "refuses_expired wd"
    and "Header_Get (Header r) ''Authorization'' = ''Bearer '' @ tok"
    and "jwt_payload wd tok = Some m" and "m ''exp'' = Some (AnyFloat64 (of_int k))"
    and "k \<le> sint (Now_Unix wd)" and "sint (Now_Unix wd) < k + 60"
    and "- (2 ^ 63) \<le> k" and "k < 2 ^ 63 - 60"
    and "status w = None"
  shows "(of_int (sint (Now_Unix wd)) :: rat) < of_int k + 60 \<and>
         validateExpiration wd c m \<and>
         isl (jwt_Parse wd tok (jwks c) [''RS256'']) \<and>
         OAuthMiddleware wd c nxt w r = sendUnauthorized c w r \<and>
         status (OAuthMiddleware wd c nxt w r) = Some 401"
proof -
  have rule: "(of_int (sint (Now_Unix wd)) :: rat) < of_int k + 60"
    using assms(6) by (metis of_int_add of_int_less_iff of_int_numeral)
  have "(of_int (- (2 ^ 63)) :: rat) \<le> of_int k"
    using assms(7) by (simp only: of_int_le_iff)
  then have lo: "- (2 ^ 63) \<le> (of_int k :: rat)" by simp
  have "(of_int k :: rat) < of_int (2 ^ 63 - 60)"
    using assms(8) by (simp only: of_int_less_iff)
  then have hi: "(of_int k :: rat) < 2 ^ 63 - 60" by simp
  have check: "validateExpiration wd c m"
    using validateExpiration_in_range [where m = m and wd = wd and c = c, OF assms(4) lo hi]
      assms(6) by (simp add: trunc_float64_of_int)
  have "(of_int k :: rat) \<le> of_int (sint (Now_Unix wd))"
    using assms(5) by (simp only: of_int_le_iff)
  with assms(1,3,4) have p: "isl (jwt_Parse wd tok (jwks c) [''RS256''])"
    unfolding refuses_expired_def by blast
  have "\<not> admitted wd c r"
    unfolding admitted_def assms(2) Let_def
    using p by (auto simp: HasPrefix_def TrimPrefix_def split: sum.splits)
  then have g: "OAuthMiddleware wd c nxt w r = sendUnauthorized c w r"
    by (simp add: gate_eq)
  show ?thesis
    using rule check p g sendUnauthorized_status [OF assms(9), of c r] by simp
qed

text \<open>
  With the clock at 1000, a token with valid issuer, audience and scope and \<open>exp = 970\<close>
  passes \<^verbatim>\<open>validateExpiration\<close> and is answered 401.
\<close>

theorem expired_within_skew_rejected_witness:
  "refuses_expired
     (strict_world 1000 (test_claims (AnyString ''http://res.example'') 970 ''mcp:tools'')) \<and>
   validateAudience test_config (test_claims (AnyString ''http://res.example'') 970 ''mcp:tools'') \<and>
   validateIssuer test_config (test_claims (AnyString ''http://res.example'') 970 ''mcp:tools'') \<and>
   validateScope test_config (test_claims (AnyString ''http://res.example'') 970 ''mcp:tools'') \<and>
   validateExpiration
     (strict_world 1000 (test_claims (AnyString ''http://res.example'') 970 ''mcp:tools''))
     test_config (test_claims (AnyString ''http://res.example'') 970 ''mcp:tools'') \<and>
   status (OAuthMiddleware
     (strict_world 1000 (test_claims (AnyString ''http://res.example'') 970 ''mcp:tools''))
     test_config test_next fresh_writer (test_request ''POST'' [''Bearer '' @ ''good''])) = Some 401"
proof -
  let ?m = "test_claims (AnyString ''http://res.example'') 970 ''mcp:tools''"
  let ?wd = "strict_world 1000 ?m"
  let ?r = "test_request ''POST'' [''Bearer '' @ ''good'']"
  have now: "sint (Now_Unix ?wd) = 1000"
    by (simp add: strict_world_def test_world_def)
  have c: "refuses_expired ?wd"
    by (auto simp: refuses_expired_def strict_world_def test_world_def test_claims_lookup
        split: if_splits)
  have pl: "jwt_payload ?wd ''good'' = Some ?m"
    by (simp add: strict_world_def test_world_def)
  have e: "?m ''exp'' = Some (AnyFloat64 (of_int 970))"
    by (simp add: test_claims_lookup)
  have k: "(970 :: int) \<le> sint (Now_Unix ?wd)" "sint (Now_Unix ?wd) < 970 + 60"
    by (simp_all add: now)
  have range: "- (2 ^ 63) \<le> (970 :: int)" "(970 :: int) < 2 ^ 63 - 60" by simp_all
  have a: "validateAudience test_config ?m"
    by (simp add: validateAudience_def test_claims_lookup test_config_def)
  have s: "validateScope test_config ?m"
    by (simp add: validateScope_def test_claims_lookup)
  from expired_within_skew_rejected
         [where wd = ?wd and c = test_config and r = ?r and m = ?m and tok = "''good''"
            and k = 970 and w = fresh_writer and nxt = test_next,
          OF c test_header pl e k range test_status]
  have "validateExpiration ?wd test_config ?m \<and>
        status (OAuthMiddleware ?wd test_config test_next fresh_writer ?r) = Some 401"
    by blast
  with c a s test_issuer [of "AnyString ''http://res.example''" 970 "''mcp:tools''"]
  show ?thesis by blast
qed

section \<open>The signing algorithm\<close>

text \<open>
  C2. The gate hands the token to \<^verbatim>\<open>jwt.Parse\<close> with the allow-list \<^verbatim>\<open>RS256\<close> alone and
  answers 401 on any error. So, with a parser that honours its allow-list, every bearer
  token that declares another signing algorithm (\<open>none\<close> and the symmetric ones
  included) is refused by the parser and the request is answered 401, whatever claims the
  token carries.
\<close>

theorem non_rs256_rejected:
  assumes "honours_valid_methods wd"
    and "Header_Get (Header r) ''Authorization'' = ''Bearer '' @ tok"
    and "jwt_alg wd tok = Some a" and "a \<noteq> ''RS256''"
    and "status w = None"
  shows "isl (jwt_Parse wd tok (jwks c) [''RS256'']) \<and>
         OAuthMiddleware wd c nxt w r = sendUnauthorized c w r \<and>
         status (OAuthMiddleware wd c nxt w r) = Some 401"
proof -
  from assms(1,3,4) have p: "isl (jwt_Parse wd tok (jwks c) [''RS256''])"
    unfolding honours_valid_methods_def by (metis empty_iff empty_set set_ConsD)
  have "\<not> admitted wd c r"
    unfolding admitted_def assms(2) Let_def
    using p by (auto simp: HasPrefix_def TrimPrefix_def split: sum.splits)
  then have "OAuthMiddleware wd c nxt w r = sendUnauthorized c w r"
    by (simp add: gate_eq)
  with p show ?thesis
    using sendUnauthorized_status [OF assms(5), of c r] by simp
qed

text \<open>
  The fixture's parser honours the allow-list; a token declaring HS256 and one
  declaring \<open>none\<close> are answered 401.
\<close>

theorem non_rs256_rejected_witness:
  "honours_valid_methods (test_world 1000 (test_claims (AnyString ''http://res.example'') 4600 ''mcp:tools'')) \<and>
   status (OAuthMiddleware
     (test_world 1000 (test_claims (AnyString ''http://res.example'') 4600 ''mcp:tools''))
     test_config test_next fresh_writer (test_request ''POST'' [''Bearer '' @ ''hs''])) = Some 401 \<and>
   status (OAuthMiddleware
     (test_world 1000 (test_claims (AnyString ''http://res.example'') 4600 ''mcp:tools''))
     test_config test_next fresh_writer (test_request ''POST'' [''Bearer '' @ ''none''])) = Some 401"
proof -
  let ?wd = "test_world 1000 (test_claims (AnyString ''http://res.example'') 4600 ''mcp:tools'')"
  have h: "honours_valid_methods ?wd"
    by (simp add: honours_valid_methods_def test_world_def)
  have hs: "jwt_alg ?wd ''hs'' = Some ''HS256''" and hs': "''HS256'' \<noteq> ''RS256''"
    and none: "jwt_alg ?wd ''none'' = Some ''none''" and none': "''none'' \<noteq> ''RS256''"
    by (simp_all add: test_world_def)
  from non_rs256_rejected
         [where wd = ?wd and c = test_config and r = "test_request ''POST'' [''Bearer '' @ ''hs'']"
            and tok = "''hs''" and a = "''HS256''" and w = fresh_writer and nxt = test_next,
          OF h test_header hs hs' test_status]
  have a: "status (OAuthMiddleware ?wd test_config test_next fresh_writer
                     (test_request ''POST'' [''Bearer '' @ ''hs''])) = Some 401"
    by blast
  from non_rs256_rejected
         [where wd = ?wd and c = test_config and r = "test_request ''POST'' [''Bearer '' @ ''none'']"
            and tok = "''none''" and a = "''none''" and w = fresh_writer and nxt = test_next,
          OF h test_header none none' test_status]
  have b: "status (OAuthMiddleware ?wd test_config test_next fresh_writer
                     (test_request ''POST'' [''Bearer '' @ ''none''])) = Some 401"
    by blast
  from h a b show ?thesis by blast
qed

section \<open>The audience check\<close>

text \<open>
  C3. The audience check succeeds exactly when the \<^verbatim>\<open>aud\<close> claim is the string equal to the
  configured resource URL or an array that holds that string; strings are compared as
  they are. For a token that \<^verbatim>\<open>jwt.Parse\<close> accepts, a failing audience check is answered
  401, and a passing one (an array holding the URL among other values included) lets the
  request through when the other three checks pass.
\<close>

theorem audience_exact_membership:
  assumes "Header_Get (Header r) ''Authorization'' = ''Bearer '' @ tok"
    and "jwt_Parse wd tok (jwks c) [''RS256''] = Inr t"
    and "Valid t" and "Claims t = IsMapClaims m"
    and "status w = None"
  shows "(validateAudience c m \<longleftrightarrow>
            m ''aud'' = Some (AnyString (ResourceURL c)) \<or>
            (\<exists>v. m ''aud'' = Some (AnySlice v) \<and> AnyString (ResourceURL c) \<in> set v)) \<and>
         (\<not> validateAudience c m \<longrightarrow>
            OAuthMiddleware wd c nxt w r = sendUnauthorized c w r \<and>
            status (OAuthMiddleware wd c nxt w r) = Some 401) \<and>
         (validateAudience c m \<and> validateIssuer c m \<and> validateExpiration wd c m \<and>
          validateScope c m \<longrightarrow> OAuthMiddleware wd c nxt w r = nxt w r)"
proof -
  have "validateAudience c m \<longleftrightarrow>
          m ''aud'' = Some (AnyString (ResourceURL c)) \<or>
          (\<exists>v. m ''aud'' = Some (AnySlice v) \<and> AnyString (ResourceURL c) \<in> set v)"
    by (auto simp: validateAudience_def audience_range_iff split: option.splits iface.splits)
  moreover have "\<not> validateAudience c m \<Longrightarrow> OAuthMiddleware wd c nxt w r = sendUnauthorized c w r"
    using gate_bearer [OF assms(1-4)] by (simp add: gate_eq)
  moreover have "validateAudience c m \<and> validateIssuer c m \<and> validateExpiration wd c m \<and>
      validateScope c m \<Longrightarrow> OAuthMiddleware wd c nxt w r = nxt w r"
    using gate_bearer [OF assms(1-4)] by (simp add: gate_eq)
  ultimately show ?thesis
    using sendUnauthorized_status [OF assms(5), of c r] by simp
qed

text \<open>
  The scenario of the specification: \<open>aud = [other, resource]\<close> is forwarded, and
  \<open>aud = [other]\<close> is answered 401.
\<close>

theorem audience_exact_membership_witness:
  "OAuthMiddleware
     (test_world 1000
        (test_claims (AnySlice [AnyString ''http://other.example'', AnyString ''http://res.example''])
           4600 ''mcp:tools read''))
     test_config test_next fresh_writer (test_request ''POST'' [''Bearer '' @ ''good'']) =
   test_next fresh_writer (test_request ''POST'' [''Bearer '' @ ''good'']) \<and>
   status (OAuthMiddleware
     (test_world 1000 (test_claims (AnySlice [AnyString ''http://other.example'']) 4600 ''mcp:tools read''))
     test_config test_next fresh_writer (test_request ''POST'' [''Bearer '' @ ''good''])) = Some 401"
proof -
  let ?yes = "AnySlice [AnyString ''http://other.example'', AnyString ''http://res.example'']"
  let ?no = "AnySlice [AnyString ''http://other.example'']"
  let ?m = "\<lambda>aud. test_claims aud 4600 ''mcp:tools read''"
  let ?wd = "\<lambda>aud. test_world 1000 (?m aud)"
  let ?r = "test_request ''POST'' [''Bearer '' @ ''good'']"
  let ?t = "\<lambda>aud. \<lparr>Valid = True, Claims = IsMapClaims (?m aud)\<rparr>"
  have v: "Valid (?t aud)" and cl: "Claims (?t aud) = IsMapClaims (?m aud)" for aud by simp_all
  have ex: "validateExpiration (?wd ?yes) test_config (?m ?yes)"
    by (simp add: validateExpiration_def test_claims_lookup int64_of_float64_def
        trunc_float64_def test_world_def)
  have no: "\<not> validateAudience test_config (?m ?no)"
    by (simp add: validateAudience_def test_claims_lookup test_config_def)
  from audience_exact_membership
         [where wd = "?wd ?yes" and c = test_config and m = "?m ?yes" and t = "?t ?yes"
            and r = ?r and w = fresh_writer and tok = "''good''" and nxt = test_next,
          OF test_header test_parse v cl test_status]
       test_audience test_issuer test_scope ex
  have a: "OAuthMiddleware (?wd ?yes) test_config test_next fresh_writer ?r =
             test_next fresh_writer ?r"
    by blast
  from audience_exact_membership
         [where wd = "?wd ?no" and c = test_config and m = "?m ?no" and t = "?t ?no"
            and r = ?r and w = fresh_writer and tok = "''good''" and nxt = test_next,
          OF test_header test_parse v cl test_status]
       no
  have b: "status (OAuthMiddleware (?wd ?no) test_config test_next fresh_writer ?r) = Some 401"
    by blast
  from a b show ?thesis by simp
qed

section \<open>The scope check\<close>

text \<open>
  C4. The scope check succeeds exactly when the \<^verbatim>\<open>scope\<close> claim is a string that is a
  space-delimited list of tokens, one of which is \<open>mcp:tools\<close>, compared as it is (so
  with its case). For a token that \<^verbatim>\<open>jwt.Parse\<close> accepts, a claim set without \<^verbatim>\<open>scope\<close>,
  and any claim set failing the check, is answered 401.
\<close>

theorem scope_token_membership:
  assumes "Header_Get (Header r) ''Authorization'' = ''Bearer '' @ tok"
    and "jwt_Parse wd tok (jwks c) [''RS256''] = Inr t"
    and "Valid t" and "Claims t = IsMapClaims m"
    and "status w = None"
  shows "(validateScope c m \<longleftrightarrow>
            (\<exists>s ts. m ''scope'' = Some (AnyString s) \<and> space_delimited ts s \<and>
                    ''mcp:tools'' \<in> set ts)) \<and>
         (m ''scope'' = None \<longrightarrow> \<not> validateScope c m) \<and>
         (\<not> validateScope c m \<longrightarrow>
            OAuthMiddleware wd c nxt w r = sendUnauthorized c w r \<and>
            status (OAuthMiddleware wd c nxt w r) = Some 401)"
proof -
  have "validateScope c m \<longleftrightarrow>
          (\<exists>s ts. m ''scope'' = Some (AnyString s) \<and> space_delimited ts s \<and>
                  ''mcp:tools'' \<in> set ts)"
    by (auto simp: validateScope_def scope_range_iff space_delimited_Split
        split: option.splits iface.splits)
  moreover have "m ''scope'' = None \<Longrightarrow> \<not> validateScope c m"
    by (simp add: validateScope_def)
  moreover have "\<not> validateScope c m \<Longrightarrow> OAuthMiddleware wd c nxt w r = sendUnauthorized c w r"
    using gate_bearer [OF assms(1-4)] by (simp add: gate_eq)
  ultimately show ?thesis
    using sendUnauthorized_status [OF assms(5), of c r] by simp
qed

text \<open>
  The scope \<open>mcp:tools read\<close> passes; \<open>MCP:TOOLS read\<close> and \<open>mcp:toolsread\<close> are answered
  401, and so is a claim set without \<^verbatim>\<open>scope\<close>.
\<close>

theorem scope_token_membership_witness:
  "validateScope test_config (test_claims (AnyString ''http://res.example'') 4600 ''mcp:tools read'') \<and>
   status (OAuthMiddleware
     (test_world 1000 (test_claims (AnyString ''http://res.example'') 4600 ''MCP:TOOLS read''))
     test_config test_next fresh_writer (test_request ''POST'' [''Bearer '' @ ''good''])) = Some 401 \<and>
   status (OAuthMiddleware
     (test_world 1000 (test_claims (AnyString ''http://res.example'') 4600 ''mcp:toolsread''))
     test_config test_next fresh_writer (test_request ''POST'' [''Bearer '' @ ''good''])) = Some 401 \<and>
   status (OAuthMiddleware
     (test_world 1000 [''aud'' \<mapsto> AnyString ''http://res.example''])
     test_config test_next fresh_writer (test_request ''POST'' [''Bearer '' @ ''good''])) = Some 401"
proof -
  let ?m = "\<lambda>sc. test_claims (AnyString ''http://res.example'') 4600 sc"
  let ?r = "test_request ''POST'' [''Bearer '' @ ''good'']"
  let ?t = "\<lambda>m. \<lparr>Valid = True, Claims = IsMapClaims m\<rparr>"
  have v: "Valid (?t m)" and cl: "Claims (?t m) = IsMapClaims m" for m by simp_all
  have up: "\<not> validateScope test_config (?m ''MCP:TOOLS read'')"
    and glued: "\<not> validateScope test_config (?m ''mcp:toolsread'')"
    by (simp_all add: validateScope_def test_claims_lookup)
  have absent: "[''aud'' \<mapsto> AnyString ''http://res.example''] ''scope'' = None" by simp
  from scope_token_membership
         [where c = test_config and r = ?r and w = fresh_writer and tok = "''good''"
            and nxt = test_next and m = "?m ''MCP:TOOLS read''"
            and wd = "test_world 1000 (?m ''MCP:TOOLS read'')"
            and t = "?t (?m ''MCP:TOOLS read'')",
          OF test_header test_parse v cl test_status] up
  have a: "status (OAuthMiddleware (test_world 1000 (?m ''MCP:TOOLS read'')) test_config
                     test_next fresh_writer ?r) = Some 401"
    by blast
  from scope_token_membership
         [where c = test_config and r = ?r and w = fresh_writer and tok = "''good''"
            and nxt = test_next and m = "?m ''mcp:toolsread''"
            and wd = "test_world 1000 (?m ''mcp:toolsread'')"
            and t = "?t (?m ''mcp:toolsread'')",
          OF test_header test_parse v cl test_status] glued
  have b: "status (OAuthMiddleware (test_world 1000 (?m ''mcp:toolsread'')) test_config
                     test_next fresh_writer ?r) = Some 401"
    by blast
  from scope_token_membership
         [where c = test_config and r = ?r and w = fresh_writer and tok = "''good''"
            and nxt = test_next and m = "[''aud'' \<mapsto> AnyString ''http://res.example'']"
            and wd = "test_world 1000 [''aud'' \<mapsto> AnyString ''http://res.example'']"
            and t = "?t [''aud'' \<mapsto> AnyString ''http://res.example'']",
          OF test_header test_parse v cl test_status] absent
  have c: "status (OAuthMiddleware (test_world 1000 [''aud'' \<mapsto> AnyString ''http://res.example''])
                     test_config test_next fresh_writer ?r) = Some 401"
    by blast
  from test_scope a b c show ?thesis by blast
qed

section \<open>Requests without a bearer token\<close>

text \<open>
  C5. A request whose \<^verbatim>\<open>Authorization\<close> header is absent, or does not begin with
  \<open>Bearer \<close>, is answered by \<^verbatim>\<open>sendUnauthorized\<close> alone, whatever the downstream handler
  is: status 401 and the header \<^verbatim>\<open>WWW-Authenticate\<close> with the value
  \<^verbatim>\<open>Bearer resource_metadata="<resource-url>/.well-known/oauth-protected-resource"\<close>.
\<close>

theorem missing_bearer_challenged:
  assumes "Header r ''Authorization'' = None \<or>
           \<not> HasPrefix (Header_Get (Header r) ''Authorization'') ''Bearer ''"
    and "status w = None"
  shows "OAuthMiddleware wd c nxt w r = sendUnauthorized c w r \<and>
         status (OAuthMiddleware wd c nxt w r) = Some 401 \<and>
         hdr (OAuthMiddleware wd c nxt w r) ''WWW-Authenticate'' =
           Some [''Bearer resource_metadata='' @ [CHR 0x22] @ ResourceURL c @
                 ''/.well-known/oauth-protected-resource'' @ [CHR 0x22]]"
proof -
  have "\<not> HasPrefix (Header_Get (Header r) ''Authorization'') ''Bearer ''"
    using assms(1) by (auto simp: Header_Get_def HasPrefix_def)
  then have "\<not> admitted wd c r"
    by (simp add: admitted_def)
  then have g: "OAuthMiddleware wd c nxt w r = sendUnauthorized c w r"
    by (simp add: gate_eq)
  show ?thesis
    using sendUnauthorized_status [OF assms(2), of c r] sendUnauthorized_challenge [of c w r]
    by (simp add: g challenge_def)
qed

text \<open>A request without the header, and one with the scheme \<open>Basic\<close>.\<close>

theorem missing_bearer_challenged_witness:
  "status (OAuthMiddleware (test_world 1000 Map.empty) test_config test_next fresh_writer
     \<lparr>Method = ''POST'', URL_Path = ''/'', Header = Map.empty, Body = []\<rparr>) = Some 401 \<and>
   hdr (OAuthMiddleware (test_world 1000 Map.empty) test_config test_next fresh_writer
     (test_request ''POST'' [''Basic dXNlcjpwdw==''])) ''WWW-Authenticate'' =
     Some [''Bearer resource_metadata='' @ [CHR 0x22] @
           ''http://res.example/.well-known/oauth-protected-resource'' @ [CHR 0x22]]"
proof -
  let ?r0 = "\<lparr>Method = ''POST'', URL_Path = ''/'', Header = Map.empty, Body = []\<rparr>"
  let ?r1 = "test_request ''POST'' [''Basic dXNlcjpwdw=='']"
  have h0: "Header ?r0 ''Authorization'' = None \<or>
            \<not> HasPrefix (Header_Get (Header ?r0) ''Authorization'') ''Bearer ''"
    by simp
  have h1: "Header ?r1 ''Authorization'' = None \<or>
            \<not> HasPrefix (Header_Get (Header ?r1) ''Authorization'') ''Bearer ''"
    by (simp add: test_request_def Header_Get_def HasPrefix_def)
  from missing_bearer_challenged
         [where r = ?r0 and w = fresh_writer and c = test_config and nxt = test_next
            and wd = "test_world 1000 Map.empty", OF h0 test_status]
  have a: "status (OAuthMiddleware (test_world 1000 Map.empty) test_config test_next
                     fresh_writer ?r0) = Some 401"
    by blast
  from missing_bearer_challenged
         [where r = ?r1 and w = fresh_writer and c = test_config and nxt = test_next
            and wd = "test_world 1000 Map.empty", OF h1 test_status]
  have "hdr (OAuthMiddleware (test_world 1000 Map.empty) test_config test_next fresh_writer ?r1)
             ''WWW-Authenticate'' =
           Some [''Bearer resource_metadata='' @ [CHR 0x22] @ ResourceURL test_config @
                 ''/.well-known/oauth-protected-resource'' @ [CHR 0x22]]"
    by blast
  then have b: "hdr (OAuthMiddleware (test_world 1000 Map.empty) test_config test_next
                       fresh_writer ?r1) ''WWW-Authenticate'' =
           Some [''Bearer resource_metadata='' @ [CHR 0x22] @
                 ''http://res.example/.well-known/oauth-protected-resource'' @ [CHR 0x22]]"
    by (simp add: test_config_def)
  from a b show ?thesis by blast
qed

section \<open>Uniform rejection\<close>

text \<open>
  C6. Any two requests that the gate rejects, at whatever step (no header, no bearer
  prefix, a token that does not parse or verify, wrong audience or issuer, expiry,
  missing scope), get the same response from the same configuration: status 401, the
  same \<^verbatim>\<open>WWW-Authenticate\<close> challenge, and the body \<open>Unauthorized\<close>, which does not depend
  on the failing step.
\<close>

theorem rejections_indistinguishable:
  assumes "failing_step wd1 c r1 = Some f1" and "failing_step wd2 c r2 = Some f2"
    and "status w = None"
  shows "OAuthMiddleware wd1 c nxt1 w r1 = OAuthMiddleware wd2 c nxt2 w r2 \<and>
         status (OAuthMiddleware wd1 c nxt1 w r1) = Some 401 \<and>
         hdr (OAuthMiddleware wd1 c nxt1 w r1) ''WWW-Authenticate'' =
           Some [challenge (ResourceURL c)] \<and>
         body (OAuthMiddleware wd1 c nxt1 w r1) = body w @ [Fprintln ''Unauthorized'']"
proof -
  have 1: "OAuthMiddleware wd1 c nxt1 w r1 = sendUnauthorized c w r1"
    using assms(1) by (simp add: gate_failing_step)
  have 2: "OAuthMiddleware wd2 c nxt2 w r2 = sendUnauthorized c w r2"
    using assms(2) by (simp add: gate_failing_step)
  have "sendUnauthorized c w r1 = sendUnauthorized c w r2"
    by (rule sendUnauthorized_any_request)
  then show ?thesis
    unfolding 1 2
    using sendUnauthorized_status [OF assms(3), of c r2]
      sendUnauthorized_body [OF assms(3), of c r2] sendUnauthorized_challenge [of c w r2]
    by simp
qed

text \<open>
  A request without the header and a request whose verified token lacks the scope fail
  at different steps and get equal responses.
\<close>

theorem rejections_indistinguishable_witness:
  "failing_step (test_world 1000 Map.empty) test_config
     \<lparr>Method = ''GET'', URL_Path = ''/'', Header = Map.empty, Body = []\<rparr> = Some NoAuthorization \<and>
   failing_step (test_world 2000 (test_claims (AnyString ''http://res.example'') 4600 ''read''))
     test_config (test_request ''POST'' [''Bearer '' @ ''good'']) = Some InsufficientScope \<and>
   OAuthMiddleware (test_world 1000 Map.empty) test_config test_next fresh_writer
     \<lparr>Method = ''GET'', URL_Path = ''/'', Header = Map.empty, Body = []\<rparr> =
   OAuthMiddleware (test_world 2000 (test_claims (AnyString ''http://res.example'') 4600 ''read''))
     test_config test_next fresh_writer (test_request ''POST'' [''Bearer '' @ ''good''])"
proof -
  let ?r1 = "\<lparr>Method = ''GET'', URL_Path = ''/'', Header = Map.empty, Body = []\<rparr>"
  let ?r2 = "test_request ''POST'' [''Bearer '' @ ''good'']"
  let ?m = "test_claims (AnyString ''http://res.example'') 4600 ''read''"
  have 1: "failing_step (test_world 1000 Map.empty) test_config ?r1 = Some NoAuthorization"
    by (simp add: failing_step_def Header_Get_def)
  have ex: "validateExpiration (test_world 2000 ?m) test_config ?m"
    by (simp add: validateExpiration_def test_claims_lookup int64_of_float64_def
        trunc_float64_def test_world_def)
  have au: "validateAudience test_config ?m"
    by (simp add: validateAudience_def test_claims_lookup test_config_def)
  have sc: "\<not> validateScope test_config ?m"
    by (simp add: validateScope_def test_claims_lookup)
  have pa: "jwt_Parse (test_world 2000 ?m) ''good'' () [''RS256''] =
              Inr \<lparr>Valid = True, Claims = IsMapClaims ?m\<rparr>"
    by (simp add: test_world_def)
  have 2: "failing_step (test_world 2000 ?m) test_config ?r2 = Some InsufficientScope"
    unfolding failing_step_def test_header Let_def
    by (simp add: TrimPrefix_def HasPrefix_def pa ex au sc test_issuer)
  from rejections_indistinguishable
         [where ?wd1.0 = "test_world 1000 Map.empty" and ?wd2.0 = "test_world 2000 ?m"
            and c = test_config and ?r1.0 = ?r1 and ?r2.0 = ?r2 and w = fresh_writer
            and ?nxt1.0 = test_next and ?nxt2.0 = test_next,
          OF 1 2 test_status]
  have "OAuthMiddleware (test_world 1000 Map.empty) test_config test_next fresh_writer ?r1 =
        OAuthMiddleware (test_world 2000 ?m) test_config test_next fresh_writer ?r2"
    by blast
  with 1 2 show ?thesis by blast
qed

section \<open>The metadata endpoint\<close>

text \<open>
  C7, as stated: the endpoint responds to GET and OPTIONS only. The handler tests the
  method for \<open>OPTIONS\<close> alone, and the route is registered for every method: a POST (or
  a DELETE) gets status 200 and the metadata document, as a GET does.
\<close>

theorem metadata_methods_counterexample:
  "''POST'' \<noteq> ''GET'' \<and> ''POST'' \<noteq> ''OPTIONS'' \<and>
   status (HandleProtectedResourceMetadata test_config fresh_writer (test_request ''POST'' [])) =
     Some 200 \<and>
   body (HandleProtectedResourceMetadata test_config fresh_writer (test_request ''POST'' [])) =
     [Encode \<lparr>Resource = ''http://res.example'', ScopesSupported = [''mcp:tools''],
              AuthorizationServers = [''http://auth.example'']\<rparr>] \<and>
   HandleProtectedResourceMetadata test_config fresh_writer (test_request ''DELETE'' []) =
   HandleProtectedResourceMetadata test_config fresh_writer (test_request ''GET'' [])"
  by (simp add: HandleProtectedResourceMetadata_def Write_def WriteHeader_def Header_Set_def
      fresh_writer_def test_request_def test_config_def StatusOK_def Let_def)

text \<open>
  C7, amended. The endpoint answers every method. For every OPTIONS request it returns
  200 with the three CORS headers and writes no body; for every other request, GET
  included, it returns 200 with the JSON encoding of the document made of the configured
  resource URL, the configured authorization server URL and the scope \<open>mcp:tools\<close>, the
  content type \<open>application/json\<close>, and the CORS header allowing any origin.
\<close>

theorem metadata_endpoint_responses:
  assumes "status w = None"
  shows "(Method r = ''OPTIONS'' \<longrightarrow>
            status (HandleProtectedResourceMetadata c w r) = Some 200 \<and>
            body (HandleProtectedResourceMetadata c w r) = body w \<and>
            hdr (HandleProtectedResourceMetadata c w r) =
              (hdr w)(''Access-Control-Allow-Origin'' \<mapsto> [''*''],
                      ''Access-Control-Allow-Methods'' \<mapsto> [''GET, OPTIONS''],
                      ''Access-Control-Allow-Headers'' \<mapsto> [''Content-Type''])) \<and>
         (Method r \<noteq> ''OPTIONS'' \<longrightarrow>
            status (HandleProtectedResourceMetadata c w r) = Some 200 \<and>
            body (HandleProtectedResourceMetadata c w r) =
              body w @ [Encode \<lparr>Resource = ResourceURL c, ScopesSupported = [''mcp:tools''],
                                AuthorizationServers = [AuthzServerURL c]\<rparr>] \<and>
            hdr (HandleProtectedResourceMetadata c w r) =
              (hdr w)(''Access-Control-Allow-Origin'' \<mapsto> [''*''],
                      ''Access-Control-Allow-Methods'' \<mapsto> [''GET, OPTIONS''],
                      ''Access-Control-Allow-Headers'' \<mapsto> [''Content-Type''],
                      ''Content-Type'' \<mapsto> [''application/json'']))"
  using assms
  by (simp add: HandleProtectedResourceMetadata_def Write_def WriteHeader_def Header_Set_def
      StatusOK_def Let_def)

text \<open>A preflight request and a GET on a fresh response writer.\<close>

theorem metadata_endpoint_responses_witness:
  "HandleProtectedResourceMetadata test_config fresh_writer (test_request ''OPTIONS'' []) =
     \<lparr>hdr = [''Access-Control-Allow-Origin'' \<mapsto> [''*''],
             ''Access-Control-Allow-Methods'' \<mapsto> [''GET, OPTIONS''],
             ''Access-Control-Allow-Headers'' \<mapsto> [''Content-Type'']],
      status = Some 200, body = []\<rparr> \<and>
   status (HandleProtectedResourceMetadata test_config fresh_writer (test_request ''GET'' [])) =
     Some 200 \<and>
   body (HandleProtectedResourceMetadata test_config fresh_writer (test_request ''GET'' [])) =
     [Encode \<lparr>Resource = ''http://res.example'', ScopesSupported = [''mcp:tools''],
              AuthorizationServers = [''http://auth.example'']\<rparr>] \<and>
   hdr (HandleProtectedResourceMetadata test_config fresh_writer (test_request ''GET'' []))
     ''Content-Type'' = Some [''application/json''] \<and>
   hdr (HandleProtectedResourceMetadata test_config fresh_writer (test_request ''GET'' []))
     ''Access-Control-Allow-Origin'' = Some [''*'']"
proof -
  have o: "Method (test_request ''OPTIONS'' []) = ''OPTIONS''"
    and g: "Method (test_request ''GET'' []) \<noteq> ''OPTIONS''"
    by (simp_all add: test_request_def)
  from metadata_endpoint_responses [OF test_status, of "test_request ''OPTIONS'' []" test_config] o
  have a: "HandleProtectedResourceMetadata test_config fresh_writer (test_request ''OPTIONS'' []) =
     \<lparr>hdr = [''Access-Control-Allow-Origin'' \<mapsto> [''*''],
             ''Access-Control-Allow-Methods'' \<mapsto> [''GET, OPTIONS''],
             ''Access-Control-Allow-Headers'' \<mapsto> [''Content-Type'']],
      status = Some 200, body = []\<rparr>"
    by (simp add: fresh_writer_def ResponseWriter.equality)
  from metadata_endpoint_responses [OF test_status, of "test_request ''GET'' []" test_config] g
  have b: "status (HandleProtectedResourceMetadata test_config fresh_writer (test_request ''GET'' [])) =
     Some 200 \<and>
   body (HandleProtectedResourceMetadata test_config fresh_writer (test_request ''GET'' [])) =
     [Encode \<lparr>Resource = ''http://res.example'', ScopesSupported = [''mcp:tools''],
              AuthorizationServers = [''http://auth.example'']\<rparr>] \<and>
   hdr (HandleProtectedResourceMetadata test_config fresh_writer (test_request ''GET'' []))
     ''Content-Type'' = Some [''application/json''] \<and>
   hdr (HandleProtectedResourceMetadata test_config fresh_writer (test_request ''GET'' []))
     ''Access-Control-Allow-Origin'' = Some [''*'']"
    by (simp add: fresh_writer_def test_config_def)
  from a b show ?thesis by blast
qed

section \<open>Malformed claims\<close>

text \<open>
  C8. A claim that is missing or of the wrong type makes its check return false:
  \<^verbatim>\<open>iss\<close> not a string, \<^verbatim>\<open>exp\<close> not a number, \<^verbatim>\<open>aud\<close> neither a string nor an array,
  \<^verbatim>\<open>scope\<close> not a string. A verified token with such a claim is answered 401. Whatever
  the request, the gate either hands it to the downstream handler or answers 401; it
  never answers with another status of its own.
\<close>

theorem malformed_claims_answered_401:
  "((\<forall>s. m ''iss'' \<noteq> Some (AnyString s)) \<longrightarrow> \<not> validateIssuer c m) \<and>
   ((\<forall>e. m ''exp'' \<noteq> Some (AnyFloat64 e)) \<longrightarrow> \<not> validateExpiration wd c m) \<and>
   ((\<forall>s. m ''aud'' \<noteq> Some (AnyString s)) \<and> (\<forall>v. m ''aud'' \<noteq> Some (AnySlice v)) \<longrightarrow>
      \<not> validateAudience c m) \<and>
   ((\<forall>s. m ''scope'' \<noteq> Some (AnyString s)) \<longrightarrow> \<not> validateScope c m) \<and>
   (status w = None \<longrightarrow>
      OAuthMiddleware wd c nxt w r = nxt w r \<or>
      status (OAuthMiddleware wd c nxt w r) = Some 401) \<and>
   (Header_Get (Header r) ''Authorization'' = ''Bearer '' @ tok \<and>
    jwt_Parse wd tok (jwks c) [''RS256''] = Inr t \<and> Valid t \<and> Claims t = IsMapClaims m \<and>
    status w = None \<and>
    ((\<forall>s. m ''iss'' \<noteq> Some (AnyString s)) \<or> (\<forall>e. m ''exp'' \<noteq> Some (AnyFloat64 e)) \<or>
     (\<forall>s. m ''aud'' \<noteq> Some (AnyString s)) \<and> (\<forall>v. m ''aud'' \<noteq> Some (AnySlice v)) \<or>
     (\<forall>s. m ''scope'' \<noteq> Some (AnyString s))) \<longrightarrow>
      OAuthMiddleware wd c nxt w r = sendUnauthorized c w r \<and>
      status (OAuthMiddleware wd c nxt w r) = Some 401)"
proof -
  have iss: "(\<forall>s. m ''iss'' \<noteq> Some (AnyString s)) \<Longrightarrow> \<not> validateIssuer c m"
    by (auto simp: validateIssuer_def split: option.splits iface.splits)
  have ex: "(\<forall>e. m ''exp'' \<noteq> Some (AnyFloat64 e)) \<Longrightarrow> \<not> validateExpiration wd c m"
    by (auto simp: validateExpiration_def split: option.splits iface.splits)
  have aud: "(\<forall>s. m ''aud'' \<noteq> Some (AnyString s)) \<and> (\<forall>v. m ''aud'' \<noteq> Some (AnySlice v)) \<Longrightarrow>
      \<not> validateAudience c m"
    by (auto simp: validateAudience_def split: option.splits iface.splits)
  have sc: "(\<forall>s. m ''scope'' \<noteq> Some (AnyString s)) \<Longrightarrow> \<not> validateScope c m"
    by (auto simp: validateScope_def split: option.splits iface.splits)
  have any: "status w = None \<Longrightarrow>
      OAuthMiddleware wd c nxt w r = nxt w r \<or> status (OAuthMiddleware wd c nxt w r) = Some 401"
    by (simp add: gate_eq sendUnauthorized_status)
  have gate: "OAuthMiddleware wd c nxt w r = sendUnauthorized c w r \<and>
      status (OAuthMiddleware wd c nxt w r) = Some 401"
    if h: "Header_Get (Header r) ''Authorization'' = ''Bearer '' @ tok"
      "jwt_Parse wd tok (jwks c) [''RS256''] = Inr t" "Valid t" "Claims t = IsMapClaims m"
      and st: "status w = None"
      and bad: "\<not> validateIssuer c m \<or> \<not> validateExpiration wd c m \<or> \<not> validateAudience c m \<or>
                \<not> validateScope c m"
  proof -
    have "\<not> admitted wd c r" using gate_bearer [OF h] bad by blast
    then show ?thesis by (simp add: gate_eq sendUnauthorized_status [OF st])
  qed
  show ?thesis
    using iss ex aud sc any gate by blast
qed

text \<open>
  A verified token whose \<^verbatim>\<open>exp\<close> is the string \<open>4600\<close>, and one whose \<^verbatim>\<open>aud\<close> is a
  number, are answered 401.
\<close>

theorem malformed_claims_answered_401_witness:
  "status (OAuthMiddleware
     (test_world 1000
        [''iss'' \<mapsto> AnyString ''http://auth.example'', ''aud'' \<mapsto> AnyString ''http://res.example'',
         ''exp'' \<mapsto> AnyString ''4600'', ''scope'' \<mapsto> AnyString ''mcp:tools''])
     test_config test_next fresh_writer (test_request ''POST'' [''Bearer '' @ ''good''])) = Some 401 \<and>
   status (OAuthMiddleware
     (test_world 1000 (test_claims (AnyFloat64 8000) 4600 ''mcp:tools''))
     test_config test_next fresh_writer (test_request ''POST'' [''Bearer '' @ ''good''])) = Some 401"
proof -
  let ?m1 = "[''iss'' \<mapsto> AnyString ''http://auth.example'',
              ''aud'' \<mapsto> AnyString ''http://res.example'',
              ''exp'' \<mapsto> AnyString ''4600'', ''scope'' \<mapsto> AnyString ''mcp:tools'']"
  let ?m2 = "test_claims (AnyFloat64 8000) 4600 ''mcp:tools''"
  let ?r = "test_request ''POST'' [''Bearer '' @ ''good'']"
  let ?t = "\<lambda>m. \<lparr>Valid = True, Claims = IsMapClaims m\<rparr>"
  have v: "Valid (?t m)" and cl: "Claims (?t m) = IsMapClaims m" for m by simp_all
  have b1: "\<forall>e. ?m1 ''exp'' \<noteq> Some (AnyFloat64 e)" by simp
  have b2: "(\<forall>s. ?m2 ''aud'' \<noteq> Some (AnyString s)) \<and> (\<forall>v. ?m2 ''aud'' \<noteq> Some (AnySlice v))"
    by (simp add: test_claims_lookup)
  from malformed_claims_answered_401
         [where m = ?m1 and wd = "test_world 1000 ?m1" and c = test_config and r = ?r
            and w = fresh_writer and tok = "''good''" and t = "?t ?m1" and nxt = test_next]
       test_header [of "''POST''" "''good''"] test_parse [of 1000 ?m1] v [of ?m1] cl [of ?m1]
       test_status b1
  have a: "status (OAuthMiddleware (test_world 1000 ?m1) test_config test_next fresh_writer ?r) =
             Some 401"
    by blast
  from malformed_claims_answered_401
         [where m = ?m2 and wd = "test_world 1000 ?m2" and c = test_config and r = ?r
            and w = fresh_writer and tok = "''good''" and t = "?t ?m2" and nxt = test_next]
       test_header [of "''POST''" "''good''"] test_parse [of 1000 ?m2] v [of ?m2] cl [of ?m2]
       test_status b2
  have b: "status (OAuthMiddleware (test_world 1000 ?m2) test_config test_next fresh_writer ?r) =
             Some 401"
    by blast
  from a b show ?thesis by blast
qed

section \<open>Forwarding\<close>

text \<open>
  C9. For a request whose bearer token \<^verbatim>\<open>jwt.Parse\<close> accepts as valid and whose claims pass
  the four checks, the result of the gate is the result of the downstream handler on the
  same response writer and the same request: nothing is added to the request or written
  by the gate before or after.
\<close>

theorem admitted_request_forwarded_unchanged:
  assumes "Header_Get (Header r) ''Authorization'' = ''Bearer '' @ tok"
    and "jwt_Parse wd tok (jwks c) [''RS256''] = Inr t"
    and "Valid t" and "Claims t = IsMapClaims m"
    and "validateAudience c m" and "validateIssuer c m"
    and "validateExpiration wd c m" and "validateScope c m"
  shows "OAuthMiddleware wd c nxt w r = nxt w r"
  using gate_bearer [OF assms(1-4)] assms(5-8) by (simp add: gate_eq)

text \<open>The scenario of the specification, with a handler that echoes the request body.\<close>

theorem admitted_request_forwarded_unchanged_witness:
  "OAuthMiddleware
     (test_world 1000 (test_claims (AnySlice [AnyString ''http://res.example'']) 4600 ''mcp:tools read''))
     test_config test_next fresh_writer (test_request ''POST'' [''Bearer '' @ ''good'']) =
   \<lparr>hdr = Map.empty, status = Some 200, body = [Fprintln []]\<rparr>"
proof -
  let ?m = "test_claims (AnySlice [AnyString ''http://res.example'']) 4600 ''mcp:tools read''"
  let ?wd = "test_world 1000 ?m"
  let ?r = "test_request ''POST'' [''Bearer '' @ ''good'']"
  let ?t = "\<lparr>Valid = True, Claims = IsMapClaims ?m\<rparr>"
  have v: "Valid ?t" and cl: "Claims ?t = IsMapClaims ?m" by simp_all
  have ex: "validateExpiration ?wd test_config ?m"
    by (simp add: validateExpiration_def test_claims_lookup int64_of_float64_def
        trunc_float64_def test_world_def)
  have au: "validateAudience test_config ?m"
    by (simp add: validateAudience_def test_claims_lookup test_config_def)
  have "OAuthMiddleware ?wd test_config test_next fresh_writer ?r = test_next fresh_writer ?r"
    by (rule admitted_request_forwarded_unchanged
              [where m = ?m and t = ?t and tok = "''good''",
               OF test_header test_parse v cl au test_issuer ex test_scope])
  then show ?thesis
    by (simp add: test_next_def Write_def WriteHeader_def fresh_writer_def StatusOK_def
        test_request_def)
qed

section \<open>Arrays of audiences\<close>

text \<open>
  C10. When \<^verbatim>\<open>aud\<close> is an array, the audience check skips the elements that are not
  strings instead of failing on them: the check passes exactly when some element is the
  string equal to the configured resource URL, whatever the other elements are, and an
  array made of non-string elements only fails.
\<close>

theorem audience_collection_ignores_non_strings:
  assumes "m ''aud'' = Some (AnySlice v)"
  shows "(validateAudience c m \<longleftrightarrow> AnyString (ResourceURL c) \<in> set v) \<and>
         ((\<forall>a \<in> set v. case a of AnyString s \<Rightarrow> False | _ \<Rightarrow> True) \<longrightarrow> \<not> validateAudience c m)"
  using assms by (auto simp: validateAudience_def audience_range_iff)

text \<open>An array with a number, an object and a boolean around the resource URL passes; an
  array without any string fails.\<close>

theorem audience_collection_ignores_non_strings_witness:
  "validateAudience test_config
     [''aud'' \<mapsto> AnySlice [AnyFloat64 7, AnyMap [(''k'', AnyNil)], AnyString ''http://res.example'', AnyBool True]] \<and>
   \<not> validateAudience test_config [''aud'' \<mapsto> AnySlice [AnyFloat64 7, AnyMap [], AnyNil]]"
proof -
  let ?v = "[AnyFloat64 7, AnyMap [(''k'', AnyNil)], AnyString ''http://res.example'', AnyBool True]"
  let ?u = "[AnyFloat64 7, AnyMap [], AnyNil]"
  have a: "[''aud'' \<mapsto> AnySlice ?v] ''aud'' = Some (AnySlice ?v)" by simp
  have b: "[''aud'' \<mapsto> AnySlice ?u] ''aud'' = Some (AnySlice ?u)" by simp
  have u: "\<forall>a \<in> set ?u. case a of AnyString s \<Rightarrow> False | _ \<Rightarrow> True" by simp
  from audience_collection_ignores_non_strings
         [where c = test_config and m = "[''aud'' \<mapsto> AnySlice ?v]" and v = ?v, OF a]
       audience_collection_ignores_non_strings
         [where c = test_config and m = "[''aud'' \<mapsto> AnySlice ?u]" and v = ?u, OF b] u
  show ?thesis by (simp add: test_config_def)
qed


end
